theory Spec2Isabelle
  imports Main "HOL-Library.Word"
begin

section \<open>Biathlon competition log processor: data model\<close>

text \<open>
  The program (\<^verbatim>\<open>main.go\<close>) reads a configuration and a list of event lines, sorts the
  events by time, folds them over a registry of competitors and prints one result line per
  competitor.

  Go's \<^verbatim>\<open>int\<close> is taken to be 64 bits wide (\<open>goint\<close>): \<^verbatim>\<open>++\<close> wraps around, \<^verbatim>\<open>==\<close> is
  equality of words.  A \<^verbatim>\<open>time.Time\<close> without monotonic reading in the UTC location is the
  number of nanoseconds since the zero value \<^verbatim>\<open>time.Time{}\<close> (1 January of year 1, 00:00
  UTC), so \<^verbatim>\<open>time.Time{}\<close> is \<open>0\<close>.  A \<^verbatim>\<open>time.Duration\<close> is an \<^verbatim>\<open>int64\<close> count of
  nanoseconds, kept as an \<open>int\<close> with the saturation (\<^verbatim>\<open>Time.Sub\<close>) or the wrap-around
  (arithmetic on durations) written out.
\<close>

type_synonym goint = "64 word"
type_synonym Time = int
type_synonym Duration = int

record Config =
  Laps :: goint
  LapLen :: goint
  PenaltyLen :: goint
  FiringLines :: goint
  Start :: string
  StartDelta :: string

record Event =
  Time :: Time
  RawTime :: string
  EventID :: goint
  CompetitorID :: goint
  Extra :: string

record Competitor =
  ID :: goint
  Started :: bool
  LapsCompleted :: goint
  Hits :: goint
  isDisqualified :: bool
  isNotFinished :: bool
  StartTime :: Time
  FinishTime :: Time
  StartPenalty :: Time
  lapTimes :: "Duration list"
  PenaltyTimes :: "Duration list"

text \<open>The event kinds, \<^verbatim>\<open>const ( undefined = iota; register; ... ; comment )\<close>.\<close>

definition undefined_kind :: goint where "undefined_kind = 0"
definition register :: goint where "register = 1"
definition startTime :: goint where "startTime = 2"
definition startLine :: goint where "startLine = 3"
definition isStarted :: goint where "isStarted = 4"
definition onTheFiringRange :: goint where "onTheFiringRange = 5"
definition hit :: goint where "hit = 6"
definition leftTheFiringRange :: goint where "leftTheFiringRange = 7"
definition enteredThePenaltyLaps :: goint where "enteredThePenaltyLaps = 8"
definition leftThePenaltyLaps :: goint where "leftThePenaltyLaps = 9"
definition endedTheMainLap :: goint where "endedTheMainLap = 10"
definition comment :: goint where "comment = 11"

section \<open>The part of package \<^verbatim>\<open>time\<close> that the program uses\<close>

definition maxDuration :: Duration where "maxDuration = 2 ^ 63 - 1"
definition minDuration :: Duration where "minDuration = - (2 ^ 63)"

text \<open>\<^verbatim>\<open>t.Sub(u)\<close>: the difference, or the largest or smallest duration when it does not fit.\<close>

definition time_Sub :: "Time \<Rightarrow> Time \<Rightarrow> Duration" where
  "time_Sub t u =
     (let d = t - u in
      if maxDuration < d then maxDuration else if d < minDuration then minDuration else d)"

definition time_Add :: "Time \<Rightarrow> Duration \<Rightarrow> Time" where
  "time_Add t d = t + d"

definition time_After :: "Time \<Rightarrow> Time \<Rightarrow> bool" where
  "time_After t u = (u < t)"

definition time_Before :: "Time \<Rightarrow> Time \<Rightarrow> bool" where
  "time_Before t u = (t < u)"

definition zeroTime :: Time where "zeroTime = 0"

definition Nanosecond :: Duration where "Nanosecond = 1"
definition Millisecond :: Duration where "Millisecond = 1000000"
definition Second :: Duration where "Second = 1000000000"
definition Minute :: Duration where "Minute = 60000000000"
definition Hour :: Duration where "Hour = 3600000000000"
definition Day :: Duration where "Day = 86400000000000"

text \<open>
  \<^verbatim>\<open>time.Date(t.Year(), t.Month(), t.Day(), 0, 0, 0, 0, t.Location())\<close> in UTC: the instant
  at which the day of \<open>t\<close> began.
\<close>

definition midnight :: "Time \<Rightarrow> Time" where
  "midnight t = t - t mod Day"

text \<open>
  \<^verbatim>\<open>time.Parse\<close> leaves year, month and day at year 0, 1 January when the layout has no date:
  that day begins 366 days before the zero time (year 0 is a leap year).
\<close>

definition yearZero :: Time where "yearZero = - (366 * Day)"

definition isDigit :: "char \<Rightarrow> bool" where
  "isDigit c = (c \<in> set ''0123456789'')"

definition digitVal :: "char \<Rightarrow> int" where
  "digitVal c = of_char c - 48"

definition commaOrPeriod :: "char \<Rightarrow> bool" where
  "commaOrPeriod c = (c = CHR ''.'' \<or> c = CHR '','')"

text \<open>\<^verbatim>\<open>getnum(s, fixed)\<close>: one or two leading digits, exactly two when \<open>fixed\<close>.\<close>

fun getnum :: "string \<Rightarrow> bool \<Rightarrow> (int \<times> string) option" where
  "getnum [] fixed = None"
| "getnum [c] fixed = (if isDigit c \<and> \<not> fixed then Some (digitVal c, []) else None)"
| "getnum (c # d # r) fixed =
     (if \<not> isDigit c then None
      else if \<not> isDigit d then (if fixed then None else Some (digitVal c, d # r))
      else Some (digitVal c * 10 + digitVal d, r))"

text \<open>\<^verbatim>\<open>skip(value, ":")\<close>: the literal text between two layout elements.\<close>

fun skipColon :: "string \<Rightarrow> string option" where
  "skipColon [] = None"
| "skipColon (c # r) = (if c = CHR '':'' then Some r else None)"

fun digitsVal :: "string \<Rightarrow> int" where
  "digitsVal [] = 0"
| "digitsVal (c # r) = digitVal c * 10 ^ length r + digitsVal r"

text \<open>
  \<^verbatim>\<open>atoi\<close> of package time on the at most nine bytes after the separator: an optional sign,
  then digits only.  \<open>None\<close> is \<^verbatim>\<open>errAtoi\<close>.
\<close>

definition time_atoi :: "string \<Rightarrow> int option" where
  "time_atoi s =
     (let neg = (s \<noteq> [] \<and> hd s = CHR ''-'');
          r = (if s \<noteq> [] \<and> (hd s = CHR ''-'' \<or> hd s = CHR ''+'') then tl s else s)
      in if list_all isDigit r
         then Some (if neg then - digitsVal r else digitsVal r) else None)"

text \<open>
  \<^verbatim>\<open>parseNanoseconds(value, nbytes)\<close>, called with \<open>nbytes \<le> length value\<close>: the separator,
  then \<open>nbytes - 1\<close> bytes (nine at most) read as a number and scaled to nanoseconds.
\<close>

definition parseNanoseconds :: "string \<Rightarrow> nat \<Rightarrow> int option" where
  "parseNanoseconds v nbytes =
     (if v = [] \<or> \<not> commaOrPeriod (hd v) then None
      else let n = min nbytes 10 in
        (case time_atoi (take (n - 1) (tl v)) of
           None \<Rightarrow> None
         | Some ns \<Rightarrow> if ns < 0 then None else Some (ns * 10 ^ (10 - n))))"

text \<open>
  The hour, minute and second elements \<^verbatim>\<open>15:04:05\<close> shared by both layouts; every range
  error and every syntax error is \<open>None\<close>.
\<close>

definition parseClock :: "string \<Rightarrow> (int \<times> string) option" where
  "parseClock v =
     (case getnum v False of None \<Rightarrow> None
      | Some (h, v1) \<Rightarrow> if 24 \<le> h then None else
     (case skipColon v1 of None \<Rightarrow> None
      | Some v2 \<Rightarrow>
     (case getnum v2 True of None \<Rightarrow> None
      | Some (m, v3) \<Rightarrow> if 60 \<le> m then None else
     (case skipColon v3 of None \<Rightarrow> None
      | Some v4 \<Rightarrow>
     (case getnum v4 True of None \<Rightarrow> None
      | Some (s, v5) \<Rightarrow> if 60 \<le> s then None else
         Some (h * 3600 + m * 60 + s, v5))))))"

definition clockTime :: "int \<Rightarrow> int \<Rightarrow> Time" where
  "clockTime secs nsec = yearZero + secs * Second + nsec"

text \<open>
  \<^verbatim>\<open>time.Parse("15:04:05.000", value)\<close>: after the seconds come a separator and exactly
  three more bytes, and nothing else.  \<open>None\<close> is the error; the caller then holds
  \<^verbatim>\<open>time.Time{}\<close>.
\<close>

definition parse_timeLayout :: "string \<Rightarrow> Time option" where
  "parse_timeLayout value =
     (case parseClock value of None \<Rightarrow> None
      | Some (secs, v) \<Rightarrow>
          if length v < 4 then None
          else (case parseNanoseconds v 4 of None \<Rightarrow> None
                | Some nsec \<Rightarrow> if drop 4 v = [] then Some (clockTime secs nsec) else None))"

text \<open>
  \<^verbatim>\<open>time.Parse("15:04:05", value)\<close>: the layout has no fractional second, but when a
  separator and a digit follow the seconds, the digits after the separator are read as one.
\<close>

definition parse_clockLayout :: "string \<Rightarrow> Time option" where
  "parse_clockLayout value =
     (case parseClock value of None \<Rightarrow> None
      | Some (secs, v) \<Rightarrow>
          if 2 \<le> length v \<and> commaOrPeriod (hd v) \<and> isDigit (v ! 1) then
            (let n = 2 + length (takeWhile isDigit (drop 2 v)) in
             case parseNanoseconds v n of None \<Rightarrow> None
             | Some nsec \<Rightarrow> if drop n v = [] then Some (clockTime secs nsec) else None)
          else if v = [] then Some (clockTime secs 0) else None)"

definition orZero :: "Time option \<Rightarrow> Time" where
  "orZero r = (case r of None \<Rightarrow> zeroTime | Some t \<Rightarrow> t)"

section \<open>The event loop of \<^verbatim>\<open>main\<close>\<close>

text \<open>One value per \<^verbatim>\<open>Printf\<close>/\<^verbatim>\<open>Println\<close> template of the loop, with its arguments.\<close>

datatype narration =
    Registered string goint
  | InvalidIncomingStartTime
  | InvalidDeltaTime
  | StartTimeSet string goint Time
  | OnStartLine string
  | LateStart string goint
  | HasStarted string goint
  | OnFiringRange string goint string
  | TargetHit string string goint
  | LeftFiringRange string goint goint
  | EnteredPenaltyLaps string goint
  | LeftPenaltyLaps string goint
  | EndedMainLap string goint
  | CantContinue string goint string
  | UnknownEventId goint

text \<open>The only run-time panic of the loop: a field access through a nil \<^verbatim>\<open>*Competitor\<close>.\<close>

datatype panic = NilPointerDereference

record state =
  competitors :: "goint \<rightharpoonup> Competitor"
  startOrder :: "Competitor list"
  out :: "narration list"

definition newCompetitor :: "goint \<Rightarrow> Competitor" where
  "newCompetitor i =
     \<lparr>ID = i, Started = False, LapsCompleted = 0, Hits = 0, isDisqualified = False,
      isNotFinished = False, StartTime = zeroTime, FinishTime = zeroTime,
      StartPenalty = zeroTime, lapTimes = [], PenaltyTimes = []\<rparr>"

definition initState :: state where
  "initState = \<lparr>competitors = Map.empty, startOrder = [], out = []\<rparr>"

definition say :: "narration list \<Rightarrow> state \<Rightarrow> state" where
  "say ns st = st\<lparr>out := out st @ ns\<rparr>"

definition store :: "goint \<Rightarrow> Competitor \<Rightarrow> state \<Rightarrow> state" where
  "store i c st = st\<lparr>competitors := (competitors st)(i \<mapsto> c)\<rparr>"

text \<open>
  \<^verbatim>\<open>deltaTime.Sub(time.Date(deltaTime.Year(), ..., 0, 0, 0, 0, deltaTime.Location()))\<close> for
  \<^verbatim>\<open>deltaTime, err := time.Parse("15:04:05", cfg.StartDelta)\<close>: the interval the
  \<^verbatim>\<open>startTime\<close> case compares with.
\<close>

definition drawInterval :: "Config \<Rightarrow> Duration" where
  "drawInterval cfg =
     (let deltaTime = orZero (parse_clockLayout (StartDelta cfg))
      in time_Sub deltaTime (midnight deltaTime))"

text \<open>The start time the \<^verbatim>\<open>startTime\<close> case compares the new one with.\<close>

definition previousStart :: "Time \<Rightarrow> Competitor list \<Rightarrow> Time" where
  "previousStart baseStart order =
     (if order = [] then baseStart else StartTime (last order))"

text \<open>
  The body of the \<^verbatim>\<open>startTime\<close> case for a non-nil \<open>comp\<close>.  Both parse errors are
  printed and the case goes on with \<^verbatim>\<open>time.Time{}\<close>.
\<close>

definition assignStart :: "Config \<Rightarrow> Time \<Rightarrow> state \<Rightarrow> Event \<Rightarrow> Competitor \<Rightarrow> state" where
  "assignStart cfg baseStart st e cp =
     (let r = parse_timeLayout (Extra e);
          c1 = cp\<lparr>StartTime := orZero r\<rparr>;
          m1 = (if r = None then [InvalidIncomingStartTime] else []);
          m2 = (if parse_clockLayout (StartDelta cfg) = None then [InvalidDeltaTime] else []);
          c2 = (if drawInterval cfg
                     < time_Sub (StartTime c1) (previousStart baseStart (startOrder st))
                then c1\<lparr>isNotFinished := True\<rparr> else c1)
      in say (m1 @ m2 @ [StartTimeSet (RawTime e) (CompetitorID e) (StartTime c2)])
           ((store (CompetitorID e) c2 st)\<lparr>startOrder := startOrder st @ [c2]\<rparr>))"

definition actuallyStarted :: "Duration \<Rightarrow> state \<Rightarrow> Event \<Rightarrow> Competitor \<Rightarrow> state" where
  "actuallyStarted delta st e cp =
     (let allowed = time_Add (StartTime cp) delta;
          late = time_After (Time e) allowed;
          c1 = (if late then cp\<lparr>isNotFinished := True\<rparr> else cp);
          c2 = c1\<lparr>Started := True\<rparr>
      in say ((if late then [LateStart (RawTime e) (CompetitorID e)] else [])
               @ [HasStarted (RawTime e) (CompetitorID e)])
           (store (CompetitorID e) c2 st))"

definition endedMainLap :: "Config \<Rightarrow> state \<Rightarrow> Event \<Rightarrow> Competitor \<Rightarrow> state" where
  "endedMainLap cfg st e cp =
     (let c1 = cp\<lparr>LapsCompleted := LapsCompleted cp + 1\<rparr>;
          c2 = (if length (lapTimes c1) = 0 \<and> LapsCompleted c1 = Laps cfg
                then c1\<lparr>lapTimes := lapTimes c1 @ [time_Sub (Time e) (StartTime c1)]\<rparr>
                else c1);
          c3 = c2\<lparr>FinishTime := Time e\<rparr>
      in say [EndedMainLap (RawTime e) (CompetitorID e)] (store (CompetitorID e) c3 st))"

definition cantContinue :: "Config \<Rightarrow> state \<Rightarrow> Event \<Rightarrow> Competitor \<Rightarrow> state" where
  "cantContinue cfg st e cp =
     (let c1 = (if LapsCompleted cp \<noteq> Laps cfg
                then cp\<lparr>lapTimes := lapTimes cp @ [time_Sub (Time e) (StartTime cp)]\<rparr>
                else cp);
          c2 = c1\<lparr>isDisqualified := True\<rparr>
      in say [CantContinue (RawTime e) (CompetitorID e) (Extra e)]
           (store (CompetitorID e) c2 st))"

text \<open>
  \<^verbatim>\<open>comp := competitors[e.CompetitorID]\<close> is nil when the key is absent; the cases that
  read or write a field of \<open>comp\<close> panic then, before they print anything.
\<close>

definition deref :: "state \<Rightarrow> Event \<Rightarrow> (Competitor \<Rightarrow> state) \<Rightarrow> panic + state" where
  "deref st e body =
     (case competitors st (CompetitorID e) of
        None \<Rightarrow> Inl NilPointerDereference
      | Some cp \<Rightarrow> Inr (body cp))"

text \<open>
  One iteration of \<^verbatim>\<open>for _, e := range events\<close>.  \<open>baseStart\<close> and \<open>delta\<close> are the
  locals of \<^verbatim>\<open>main\<close> parsed from the configuration before the loop.
\<close>

definition processEvent :: "Config \<Rightarrow> Time \<Rightarrow> Duration \<Rightarrow> state \<Rightarrow> Event \<Rightarrow> panic + state" where
  "processEvent cfg baseStart delta st e =
     (if EventID e = register then
        Inr (say [Registered (RawTime e) (CompetitorID e)]
               (store (CompetitorID e) (newCompetitor (CompetitorID e)) st))
      else if EventID e = startTime then
        deref st e (assignStart cfg baseStart st e)
      else if EventID e = startLine then
        Inr (say [OnStartLine (RawTime e)] st)
      else if EventID e = isStarted then
        deref st e (actuallyStarted delta st e)
      else if EventID e = onTheFiringRange then
        Inr (say [OnFiringRange (RawTime e) (CompetitorID e) (Extra e)] st)
      else if EventID e = hit then
        deref st e (\<lambda>cp.
          say [TargetHit (RawTime e) (Extra e) (CompetitorID e)]
            (store (CompetitorID e) (cp\<lparr>Hits := Hits cp + 1\<rparr>) st))
      else if EventID e = leftTheFiringRange then
        deref st e (\<lambda>cp.
          say [LeftFiringRange (RawTime e) (CompetitorID e) (LapsCompleted cp)] st)
      else if EventID e = enteredThePenaltyLaps then
        deref st e (\<lambda>cp.
          say [EnteredPenaltyLaps (RawTime e) (CompetitorID e)]
            (store (CompetitorID e) (cp\<lparr>StartPenalty := Time e\<rparr>) st))
      else if EventID e = leftThePenaltyLaps then
        deref st e (\<lambda>cp.
          say [LeftPenaltyLaps (RawTime e) (CompetitorID e)]
            (store (CompetitorID e)
               (cp\<lparr>PenaltyTimes := PenaltyTimes cp
                        @ [time_Sub (Time e) (StartPenalty cp)]\<rparr>) st))
      else if EventID e = endedTheMainLap then
        deref st e (endedMainLap cfg st e)
      else if EventID e = comment then
        deref st e (cantContinue cfg st e)
      else
        Inr (say [UnknownEventId (EventID e)] st))"

text \<open>The loop: a panic ends the run, the events after it are never looked at.\<close>

fun processEvents :: "Config \<Rightarrow> Time \<Rightarrow> Duration \<Rightarrow> state \<Rightarrow> Event list \<Rightarrow> panic + state" where
  "processEvents cfg baseStart delta st [] = Inr st"
| "processEvents cfg baseStart delta st (e # es) =
     (case processEvent cfg baseStart delta st e of
        Inl p \<Rightarrow> Inl p
      | Inr st' \<Rightarrow> processEvents cfg baseStart delta st' es)"

section \<open>\<^verbatim>\<open>printResults\<close>: the status column\<close>

text \<open>
  The status string of a result line; \<open>Elapsed d\<close> stands for \<^verbatim>\<open>d.String()\<close> of the
  duration \<open>d\<close>.
\<close>

datatype status = NotFinished | NotStarted | Elapsed Duration | Unknown

definition statusOf :: "Config \<Rightarrow> Competitor \<Rightarrow> status" where
  "statusOf cfg cp =
     (if FinishTime cp = zeroTime \<or> isDisqualified cp \<or> LapsCompleted cp \<noteq> Laps cfg
      then NotFinished
      else if isNotFinished cp then NotStarted
      else if Started cp then Elapsed (time_Sub (FinishTime cp) (StartTime cp))
      else Unknown)"

text \<open>
  \<^verbatim>\<open>for _, comp := range competitors\<close> prints one line per entry, in no fixed order: the
  status printed for each key.
\<close>

definition printResults :: "(goint \<rightharpoonup> Competitor) \<Rightarrow> Config \<Rightarrow> (goint \<rightharpoonup> status)" where
  "printResults comps cfg = (\<lambda>i. map_option (statusOf cfg) (comps i))"

section \<open>Sample inputs\<close>

text \<open>The configuration of the specification's scenarios.\<close>

definition sampleConfig :: Config where
  "sampleConfig = \<lparr>Laps = 2, LapLen = 3500, PenaltyLen = 150, FiringLines = 2,
     Start = ''10:00:00.000'', StartDelta = ''00:01:30''\<rparr>"

text \<open>
  \<^verbatim>\<open>Event{Time: t, RawTime: raw, EventID: k, CompetitorID: i, Extra: x}\<close> with \<open>t\<close> parsed
  from \<open>raw\<close>, as \<^verbatim>\<open>parseEvent\<close> builds it.
\<close>

definition mkEvent :: "string \<Rightarrow> goint \<Rightarrow> goint \<Rightarrow> string \<Rightarrow> Event" where
  "mkEvent raw k i x =
     \<lparr>Time = orZero (parse_timeLayout raw), RawTime = raw, EventID = k, CompetitorID = i,
      Extra = x\<rparr>"

text \<open>\<open>baseStart\<close> of the sample configuration, \<^verbatim>\<open>time.Parse(timeLayout, cfg.Start)\<close>.\<close>

definition sampleBase :: Time where
  "sampleBase = orZero (parse_timeLayout (Start sampleConfig))"

text \<open>\<open>delta\<close> of the sample configuration, one minute and a half.\<close>

definition sampleDelta :: Duration where
  "sampleDelta = 90 * Second"

text \<open>Registries the examples start from.\<close>

definition registered1 :: state where
  "registered1 = store 1 (newCompetitor 1) initState"

definition drawn1 :: state where
  "drawn1 = store 1 (newCompetitor 1\<lparr>StartTime := clockTime 36000 0\<rparr>) initState"


definition withdrawn1 :: state where
  "withdrawn1 = store 1 (newCompetitor 1\<lparr>isDisqualified := True\<rparr>) initState"

definition laterEvents :: "Event list" where
  "laterEvents =
     [mkEvent ''10:06:00.000'' 1 2 [], mkEvent ''10:07:00.000'' 10 1 [],
      mkEvent ''10:08:00.000'' 6 1 ''3'']"

text \<open>The record of the specification's first scenario after its six events.\<close>

definition finished1 :: Competitor where
  "finished1 = newCompetitor 1
     \<lparr>Started := True, LapsCompleted := 2, Hits := 1, StartTime := clockTime 36000 0,
      FinishTime := clockTime 36600 0, lapTimes := [10 * Minute]\<rparr>"

text \<open>What is left of a run: a record of the registry and the lines printed, nothing after a panic.\<close>

definition finalCompetitor :: "panic + state \<Rightarrow> goint \<Rightarrow> Competitor option" where
  "finalCompetitor r i = (case r of Inl p \<Rightarrow> None | Inr st \<Rightarrow> competitors st i)"

definition finalOut :: "panic + state \<Rightarrow> narration list option" where
  "finalOut r = (case r of Inl p \<Rightarrow> None | Inr st \<Rightarrow> Some (out st))"

text \<open>The kinds the \<^verbatim>\<open>switch\<close> has a case for.\<close>

definition knownKind :: "goint \<Rightarrow> bool" where
  "knownKind k = (k \<in> {register, startTime, startLine, isStarted, onTheFiringRange, hit,
     leftTheFiringRange, enteredThePenaltyLaps, leftThePenaltyLaps, endedTheMainLap, comment})"

section \<open>Basic facts\<close>

lemmas kind_defs = undefined_kind_def register_def startTime_def startLine_def isStarted_def
  onTheFiringRange_def hit_def leftTheFiringRange_def enteredThePenaltyLaps_def
  leftThePenaltyLaps_def endedTheMainLap_def comment_def

lemma deref_Some:
  "competitors st (CompetitorID e) = Some c \<Longrightarrow> deref st e body = Inr (body c)"
  by (simp add: deref_def)

lemma deref_None:
  "competitors st (CompetitorID e) = None \<Longrightarrow> deref st e body = Inl NilPointerDereference"
  by (simp add: deref_def)

section \<open>The state machine\<close>

text \<open>
  Claim C1.  For every record of the final registry the status is chosen by the first rule
  that matches: not finished when the finish time is unset, the competitor is disqualified or
  the lap count differs from the configured one; else not started when the not-started flag is
  set; else the elapsed time from scheduled start to finish when the competitor started; else
  unknown.  One status is printed for each record and for nothing else.
\<close>

theorem C1_status:
  "dom (printResults comps cfg) = dom comps \<and>
   (\<forall>i c. comps i = Some c \<longrightarrow>
      (FinishTime c = zeroTime \<or> isDisqualified c \<or> LapsCompleted c \<noteq> Laps cfg
         \<longrightarrow> printResults comps cfg i = Some NotFinished) \<and>
      (\<not> (FinishTime c = zeroTime \<or> isDisqualified c \<or> LapsCompleted c \<noteq> Laps cfg)
         \<longrightarrow>
         (isNotFinished c \<longrightarrow> printResults comps cfg i = Some NotStarted) \<and>
         (\<not> isNotFinished c \<and> Started c
            \<longrightarrow> printResults comps cfg i
                  = Some (Elapsed (time_Sub (FinishTime c) (StartTime c)))) \<and>
         (\<not> isNotFinished c \<and> \<not> Started c
            \<longrightarrow> printResults comps cfg i = Some Unknown)))"
  by (auto simp: printResults_def statusOf_def dom_def)

theorem C1_status_witness:
  "[1 \<mapsto> finished1] (1 :: goint) = Some finished1
   \<and> \<not> (FinishTime finished1 = zeroTime \<or> isDisqualified finished1
          \<or> LapsCompleted finished1 \<noteq> Laps sampleConfig)
   \<and> \<not> isNotFinished finished1 \<and> Started finished1
   \<and> printResults [1 \<mapsto> finished1] sampleConfig 1 = Some (Elapsed (10 * Minute))
   \<and> dom (printResults [1 \<mapsto> finished1] sampleConfig) = {1}"
proof -
  have h1: "[1 \<mapsto> finished1] (1 :: goint) = Some finished1"
    by simp
  have h2: "\<not> (FinishTime finished1 = zeroTime \<or> isDisqualified finished1
          \<or> LapsCompleted finished1 \<noteq> Laps sampleConfig)"
    by (simp add: finished1_def newCompetitor_def sampleConfig_def clockTime_def yearZero_def
        Day_def Second_def zeroTime_def)
  have h3: "\<not> isNotFinished finished1 \<and> Started finished1"
    by (simp add: finished1_def newCompetitor_def)
  have d: "time_Sub (FinishTime finished1) (StartTime finished1) = 10 * Minute"
    by (simp add: finished1_def time_Sub_def clockTime_def Second_def Minute_def
        maxDuration_def minDuration_def)
  note c1 = C1_status [of "[1 \<mapsto> finished1]" sampleConfig]
  have dm: "dom (printResults [1 \<mapsto> finished1] sampleConfig) = {1}"
    using c1 [THEN conjunct1] by simp
  have st: "printResults [1 \<mapsto> finished1] sampleConfig 1
          = Some (Elapsed (time_Sub (FinishTime finished1) (StartTime finished1)))"
    using c1 [THEN conjunct2, THEN spec, THEN spec, THEN mp, OF h1, THEN conjunct2,
        THEN mp, OF h2, THEN conjunct2, THEN conjunct1, THEN mp, OF h3] .
  note st' = st [unfolded d]
  show ?thesis
    by (intro conjI) (rule h1, rule h2, rule h3 [THEN conjunct1], rule h3 [THEN conjunct2],
        rule st', rule dm)
qed

text \<open>
  Claim C3.  An \<^verbatim>\<open>endedTheMainLap\<close> event of a registered competitor adds one to the lap
  count, appends the time since the scheduled start to the lap durations exactly when none was
  recorded yet and the new count is the configured one, and sets the finish time to the
  time of the event.
\<close>

theorem C3_endedMainLap:
  assumes "EventID e = endedTheMainLap"
    and "competitors st (CompetitorID e) = Some c"
  shows "\<exists>st' c'. processEvent cfg baseStart delta st e = Inr st'
      \<and> competitors st' = (competitors st)(CompetitorID e \<mapsto> c')
      \<and> LapsCompleted c' = LapsCompleted c + 1
      \<and> lapTimes c' =
          (if lapTimes c = [] \<and> LapsCompleted c + 1 = Laps cfg
           then [time_Sub (Time e) (StartTime c)] else lapTimes c)
      \<and> FinishTime c' = Time e"
  using assms
  by (auto simp: processEvent_def kind_defs deref_Some endedMainLap_def say_def store_def Let_def)

theorem C3_endedMainLap_witness:
  "EventID (mkEvent ''10:05:00.000'' 10 1 []) = endedTheMainLap
   \<and> competitors registered1 (CompetitorID (mkEvent ''10:05:00.000'' 10 1 []))
       = Some (newCompetitor 1)
   \<and> (\<exists>st' c'. processEvent (sampleConfig\<lparr>Laps := 1\<rparr>) sampleBase sampleDelta registered1
                   (mkEvent ''10:05:00.000'' 10 1 []) = Inr st'
      \<and> competitors st' = (competitors registered1)(1 \<mapsto> c')
      \<and> LapsCompleted c' = 1
      \<and> lapTimes c' = [time_Sub (clockTime 36300 0) zeroTime]
      \<and> FinishTime c' = clockTime 36300 0)"
proof -
  let ?e = "mkEvent ''10:05:00.000'' 10 1 []"
  have t: "Time ?e = clockTime 36300 0"
    by code_simp
  have h1: "EventID ?e = endedTheMainLap"
    by (simp add: mkEvent_def kind_defs)
  have h2: "competitors registered1 (CompetitorID ?e) = Some (newCompetitor 1)"
    by (simp add: mkEvent_def registered1_def store_def)
  have i: "CompetitorID ?e = 1" by (simp add: mkEvent_def)
  show ?thesis
    using h1 h2 C3_endedMainLap [OF h1 h2, of "sampleConfig\<lparr>Laps := 1\<rparr>" sampleBase sampleDelta]
    unfolding t i
    by (simp add: newCompetitor_def sampleConfig_def)
qed



text \<open>
  Claim C5.  An \<^verbatim>\<open>isStarted\<close> event of a registered competitor always sets \<^verbatim>\<open>Started\<close>; it
  sets the not-started flag when the event is later than the scheduled start plus the start
  interval, and leaves the flag as it was when the event is at or before that time.
\<close>

theorem C5_actuallyStarted:
  assumes "EventID e = isStarted"
    and "competitors st (CompetitorID e) = Some c"
  shows "\<exists>st' c'. processEvent cfg baseStart delta st e = Inr st'
      \<and> competitors st' = (competitors st)(CompetitorID e \<mapsto> c')
      \<and> Started c'
      \<and> (time_After (Time e) (time_Add (StartTime c) delta) \<longrightarrow> isNotFinished c')
      \<and> (\<not> time_After (Time e) (time_Add (StartTime c) delta)
           \<longrightarrow> isNotFinished c' = isNotFinished c)"
  using assms
  by (auto simp: processEvent_def kind_defs deref_Some actuallyStarted_def say_def store_def Let_def)

theorem C5_actuallyStarted_witness:
  "EventID (mkEvent ''10:01:30.001'' 4 1 []) = isStarted
   \<and> competitors drawn1 (CompetitorID (mkEvent ''10:01:30.001'' 4 1 []))
       = Some (newCompetitor 1\<lparr>StartTime := clockTime 36000 0\<rparr>)
   \<and> time_After (Time (mkEvent ''10:01:30.001'' 4 1 [])) (time_Add (clockTime 36000 0) sampleDelta)
   \<and> (\<exists>st' c'. processEvent sampleConfig sampleBase sampleDelta drawn1
                   (mkEvent ''10:01:30.001'' 4 1 []) = Inr st'
      \<and> competitors st' = (competitors drawn1)(1 \<mapsto> c')
      \<and> Started c' \<and> isNotFinished c')"
proof -
  let ?e = "mkEvent ''10:01:30.001'' 4 1 []"
  let ?c = "newCompetitor 1\<lparr>StartTime := clockTime 36000 0\<rparr>"
  have t: "Time ?e = clockTime 36090 1000000"
    by code_simp
  have late: "time_After (clockTime 36090 1000000) (time_Add (clockTime 36000 0) sampleDelta)"
    by (simp add: time_After_def time_Add_def clockTime_def sampleDelta_def Second_def)
  have h1: "EventID ?e = isStarted"
    by (simp add: mkEvent_def kind_defs)
  have h2: "competitors drawn1 (CompetitorID ?e) = Some ?c"
    by (simp add: mkEvent_def drawn1_def store_def)
  have i: "CompetitorID ?e = 1" by (simp add: mkEvent_def)
  have s: "StartTime ?c = clockTime 36000 0" by simp
  show ?thesis
    using h1 h2 late C5_actuallyStarted [OF h1 h2, of sampleConfig sampleBase sampleDelta]
    unfolding t i s
    by auto
qed

text \<open>
  Claim C6, as the program has it.  A \<^verbatim>\<open>leftThePenaltyLaps\<close> event of a registered
  competitor always appends the time of the event minus \<^verbatim>\<open>StartPenalty\<close> to the penalty
  durations and reports no error; a \<^verbatim>\<open>StartPenalty\<close> that was never set is the zero time.
\<close>

theorem C6_leftPenaltyLaps:
  assumes "EventID e = leftThePenaltyLaps"
    and "competitors st (CompetitorID e) = Some c"
  shows "\<exists>st' c'. processEvent cfg baseStart delta st e = Inr st'
      \<and> competitors st' = (competitors st)(CompetitorID e \<mapsto> c')
      \<and> PenaltyTimes c' = PenaltyTimes c @ [time_Sub (Time e) (StartPenalty c)]"
  using assms
  by (auto simp: processEvent_def kind_defs deref_Some say_def store_def)

theorem C6_leftPenaltyLaps_witness:
  "EventID (mkEvent ''10:05:00.000'' 9 1 []) = leftThePenaltyLaps
   \<and> competitors registered1 (CompetitorID (mkEvent ''10:05:00.000'' 9 1 []))
       = Some (newCompetitor 1)
   \<and> StartPenalty (newCompetitor 1) = zeroTime
   \<and> (\<exists>st' c'. processEvent sampleConfig sampleBase sampleDelta registered1
                   (mkEvent ''10:05:00.000'' 9 1 []) = Inr st'
      \<and> competitors st' = (competitors registered1)(1 \<mapsto> c')
      \<and> PenaltyTimes c' = [time_Sub (clockTime 36300 0) zeroTime])"
proof -
  let ?e = "mkEvent ''10:05:00.000'' 9 1 []"
  have t: "Time ?e = clockTime 36300 0"
    by code_simp
  have h1: "EventID ?e = leftThePenaltyLaps"
    by (simp add: mkEvent_def kind_defs)
  have h2: "competitors registered1 (CompetitorID ?e) = Some (newCompetitor 1)"
    by (simp add: mkEvent_def registered1_def store_def)
  have i: "CompetitorID ?e = 1" by (simp add: mkEvent_def)
  show ?thesis
    using h1 h2 C6_leftPenaltyLaps [OF h1 h2, of sampleConfig sampleBase sampleDelta]
    unfolding t i
    by (simp add: newCompetitor_def)
qed

text \<open>
  The claim asks for an error when no \<^verbatim>\<open>enteredThePenaltyLaps\<close> event came before: the
  run below has none, ends without an error and records a negative duration of about a year.
\<close>

theorem C6_counterexample:
  "map_option PenaltyTimes
     (finalCompetitor (processEvents sampleConfig sampleBase sampleDelta initState
        [mkEvent ''09:00:00.000'' 1 1 [], mkEvent ''10:05:00.000'' 9 1 []]) 1)
     = Some [- 31586100000000000]
   \<and> finalOut (processEvents sampleConfig sampleBase sampleDelta initState
        [mkEvent ''09:00:00.000'' 1 1 [], mkEvent ''10:05:00.000'' 9 1 []])
     = Some [Registered ''09:00:00.000'' 1, LeftPenaltyLaps ''10:05:00.000'' 1]"
  by code_simp

lemma processEvent_keeps_disqualified:
  assumes "competitors st i = Some c" and "isDisqualified c"
    and "\<not> (EventID e = register \<and> CompetitorID e = i)"
    and "processEvent cfg baseStart delta st e = Inr st'"
  shows "\<exists>c'. competitors st' i = Some c' \<and> isDisqualified c'"
proof (cases "CompetitorID e = i")
  case True
  with assms show ?thesis
    by (auto simp: processEvent_def deref_def assignStart_def actuallyStarted_def
        endedMainLap_def cantContinue_def say_def store_def Let_def split: if_splits)
next
  case False
  with assms show ?thesis
    by (auto simp: processEvent_def deref_def assignStart_def actuallyStarted_def
        endedMainLap_def cantContinue_def say_def store_def Let_def
        split: if_splits option.splits)
qed

text \<open>
  Claim C7, as the program has it.  Once the disqualified flag of a competitor is set it stays
  set through every later event, of any kind and for any identifier, other than a
  \<^verbatim>\<open>register\<close> event for the same identifier.
\<close>

theorem C7_disqualified_until_reregistered:
  assumes "competitors st i = Some c" and "isDisqualified c"
    and "\<forall>e \<in> set es. \<not> (EventID e = register \<and> CompetitorID e = i)"
    and "processEvents cfg baseStart delta st es = Inr st'"
  shows "\<exists>c'. competitors st' i = Some c' \<and> isDisqualified c'"
  using assms
proof (induction es arbitrary: st c)
  case Nil
  then show ?case by auto
next
  case (Cons e es)
  from Cons.prems(4) obtain st1 where
    step: "processEvent cfg baseStart delta st e = Inr st1"
    and rest: "processEvents cfg baseStart delta st1 es = Inr st'"
    by (auto split: sum.splits)
  from Cons.prems(3) have ne: "\<not> (EventID e = register \<and> CompetitorID e = i)"
    and nes: "\<forall>e \<in> set es. \<not> (EventID e = register \<and> CompetitorID e = i)"
    by auto
  from processEvent_keeps_disqualified [OF Cons.prems(1) Cons.prems(2) ne step]
  obtain c1 where "competitors st1 i = Some c1" and "isDisqualified c1"
    by blast
  then show ?case
    using Cons.IH nes rest by blast
qed

lemma cantContinue_sets_disqualified:
  assumes "EventID e = comment" and "competitors st (CompetitorID e) = Some c"
  shows "\<exists>st' c'. processEvent cfg baseStart delta st e = Inr st'
      \<and> competitors st' (CompetitorID e) = Some c' \<and> isDisqualified c'"
  using assms
  by (auto simp: processEvent_def kind_defs deref_Some cantContinue_def say_def store_def Let_def)

theorem C7_disqualified_until_reregistered_witness:
  "competitors withdrawn1 1 = Some (newCompetitor 1\<lparr>isDisqualified := True\<rparr>)
   \<and> isDisqualified (newCompetitor 1\<lparr>isDisqualified := True\<rparr>)
   \<and> list_all (\<lambda>e. \<not> (EventID e = register \<and> CompetitorID e = 1)) laterEvents
   \<and> map_option isDisqualified
        (finalCompetitor (processEvents sampleConfig sampleBase sampleDelta withdrawn1 laterEvents) 1)
       = Some True"
proof -
  let ?c = "newCompetitor 1\<lparr>isDisqualified := True\<rparr>"
  have h1: "competitors withdrawn1 1 = Some ?c"
    by (simp add: withdrawn1_def store_def)
  have h2: "isDisqualified ?c" by simp
  have h3: "\<forall>e \<in> set laterEvents. \<not> (EventID e = register \<and> CompetitorID e = 1)"
    by (simp add: laterEvents_def mkEvent_def kind_defs)
  obtain st' where r: "processEvents sampleConfig sampleBase sampleDelta withdrawn1 laterEvents = Inr st'"
    by (simp add: laterEvents_def mkEvent_def processEvent_def kind_defs deref_def withdrawn1_def
        store_def say_def endedMainLap_def Let_def)
  from C7_disqualified_until_reregistered [OF h1 h2 h3 r]
  show ?thesis using h1 h2 h3 r by (auto simp: finalCompetitor_def list_all_iff)
qed

text \<open>
  A second \<^verbatim>\<open>register\<close> event for the identifier stores a fresh record: the competitor
  withdrawn at 10:05 is no longer disqualified after registering again at 10:06.
\<close>

theorem C7_counterexample:
  "map_option isDisqualified
     (finalCompetitor (processEvents sampleConfig sampleBase sampleDelta initState
        [mkEvent ''09:00:00.000'' 1 1 [], mkEvent ''10:05:00.000'' 11 1 ''Lost in the forest'']) 1)
     = Some True
   \<and> map_option isDisqualified
     (finalCompetitor (processEvents sampleConfig sampleBase sampleDelta initState
        [mkEvent ''09:00:00.000'' 1 1 [], mkEvent ''10:05:00.000'' 11 1 ''Lost in the forest'',
         mkEvent ''10:06:00.000'' 1 1 []]) 1)
     = Some False"
  by code_simp

text \<open>
  Claim C2, as the program has it.  An event other than \<^verbatim>\<open>register\<close> whose identifier has
  no record never creates or changes a record: whenever the iteration completes, the registry
  and the start order are as before.  No error is reported: the kinds \<^verbatim>\<open>startLine\<close> and
  \<^verbatim>\<open>onTheFiringRange\<close> and the unknown kinds print their line and the loop goes on.
\<close>

theorem C2_unregistered_reference:
  assumes "competitors st (CompetitorID e) = None" and "EventID e \<noteq> register"
  shows "(\<forall>st'. processEvent cfg baseStart delta st e = Inr st'
            \<longrightarrow> competitors st' = competitors st \<and> startOrder st' = startOrder st)
      \<and> (EventID e = startLine
            \<longrightarrow> processEvent cfg baseStart delta st e = Inr (say [OnStartLine (RawTime e)] st))
      \<and> (EventID e = onTheFiringRange
            \<longrightarrow> processEvent cfg baseStart delta st e
                = Inr (say [OnFiringRange (RawTime e) (CompetitorID e) (Extra e)] st))
      \<and> (\<not> knownKind (EventID e)
            \<longrightarrow> processEvent cfg baseStart delta st e = Inr (say [UnknownEventId (EventID e)] st))"
  using assms
  by (auto simp: processEvent_def deref_None say_def knownKind_def kind_defs split: if_splits)

theorem C2_unregistered_reference_witness:
  "competitors initState (CompetitorID (mkEvent ''09:59:00.000'' 3 1 [])) = None
   \<and> EventID (mkEvent ''09:59:00.000'' 3 1 []) \<noteq> register
   \<and> EventID (mkEvent ''09:59:00.000'' 3 1 []) = startLine
   \<and> processEvent sampleConfig sampleBase sampleDelta initState (mkEvent ''09:59:00.000'' 3 1 [])
       = Inr (say [OnStartLine ''09:59:00.000''] initState)
   \<and> competitors (say [OnStartLine ''09:59:00.000''] initState) = competitors initState"
proof -
  let ?e = "mkEvent ''09:59:00.000'' 3 1 []"
  have h1: "competitors initState (CompetitorID ?e) = None"
    by (simp add: initState_def)
  have h2: "EventID ?e \<noteq> register"
    by (simp add: mkEvent_def kind_defs)
  have k: "EventID ?e = startLine"
    by (simp add: mkEvent_def kind_defs)
  have r: "RawTime ?e = ''09:59:00.000''"
    by (simp add: mkEvent_def)
  note c2 = C2_unregistered_reference [OF h1 h2, of sampleConfig sampleBase sampleDelta]
  have p: "processEvent sampleConfig sampleBase sampleDelta initState ?e
             = Inr (say [OnStartLine (RawTime ?e)] initState)"
    using c2 [THEN conjunct2, THEN conjunct1, THEN mp, OF k] .
  have q: "competitors (say [OnStartLine (RawTime ?e)] initState) = competitors initState"
    using c2 [THEN conjunct1, THEN spec, THEN mp, OF p, THEN conjunct1] .
  show ?thesis
    by (intro conjI) (rule h1, rule h2, rule k, rule p [unfolded r], rule q [unfolded r])
qed

text \<open>
  The claim asks for a reported error and no crash: a \<^verbatim>\<open>hit\<close> for an unregistered
  identifier ends the run in a nil dereference, and a \<^verbatim>\<open>startLine\<close> for one is narrated as
  if nothing were wrong.
\<close>

theorem C2_counterexample:
  "processEvents sampleConfig sampleBase sampleDelta initState [mkEvent ''10:01:00.000'' 6 1 ''1'']
     = Inl NilPointerDereference
   \<and> processEvents sampleConfig sampleBase sampleDelta initState [mkEvent ''09:59:00.000'' 3 1 []]
     = Inr (say [OnStartLine ''09:59:00.000''] initState)"
  by (simp add: processEvent_def mkEvent_def kind_defs deref_def initState_def)

text \<open>
  A run that completes holds a record for exactly the identifiers that were registered.
\<close>

lemma processEvent_dom:
  assumes "processEvent cfg baseStart delta st e = Inr st'"
  shows "dom (competitors st') =
     (if EventID e = register then insert (CompetitorID e) (dom (competitors st))
      else dom (competitors st))"
  using assms
  by (auto simp: processEvent_def deref_def assignStart_def actuallyStarted_def
      endedMainLap_def cantContinue_def say_def store_def Let_def
      split: if_splits option.splits)

lemma processEvents_dom:
  assumes "processEvents cfg baseStart delta st es = Inr st'"
  shows "dom (competitors st') =
     dom (competitors st) \<union> {CompetitorID e |e. e \<in> set es \<and> EventID e = register}"
  using assms
proof (induction es arbitrary: st)
  case Nil
  then show ?case by simp
next
  case (Cons e es)
  from Cons.prems obtain st1 where
    step: "processEvent cfg baseStart delta st e = Inr st1"
    and rest: "processEvents cfg baseStart delta st1 es = Inr st'"
    by (auto split: sum.splits)
  from Cons.IH [OF rest] processEvent_dom [OF step]
  show ?case by (auto split: if_splits)
qed

end
